theory Spec2Isabelle
  imports Main
begin

section \<open>Wire documents, errors and collaborators\<close>

text \<open>
  A parsed JSON-like document, as the transport hands it back and as \<open>serialize()\<close>
  produces it. A Python dict is an association list in insertion order.
\<close>

datatype json =
    JNone
  | JBool bool
  | JInt int
  | JStr string
  | JList "json list"
  | JDict "(string \<times> json) list"

text \<open>
  The exceptions the code raises, as values. The formatted message text each one carries
  is not modelled: it is built with \<open>str.format\<close> from the status and the response body
  and never read again.
\<close>

datatype k8s_error =
    SyntaxError
  | TypeError
  | Exception
  | BadRequestException
  | NotFoundException
  | UnauthorizedException
  | AlreadyExistsException
  | UnprocessableEntityException

text \<open>
  \<open>K8sConfig\<close> is imported by \<open>K8sObject.py\<close>; these are the attributes the code reads.
\<close>

record K8sConfig =
  api_host :: string
  namespace :: string
  version :: string
  auth :: "(string \<times> string) option"
  cert :: "(string \<times> string) option"
  token :: "string option"
  ca_cert :: "string option"
  ca_cert_data :: "string option"

text \<open>
  The document model: \<open>self.model.metadata\<close> with the three attributes the lifecycle
  code touches, and everything else the model holds (kind, API version, spec, status,
  the remaining metadata) as \<open>content\<close>.
\<close>

record ObjectMeta =
  name :: "string option"
  resource_version :: "string option"
  uid :: "string option"

record 'c BaseModel =
  metadata :: ObjectMeta
  content :: 'c

text \<open>The classes of \<open>src/kubernetes\<close>; both resource classes derive from \<open>K8sObject\<close>.\<close>

datatype k8s_class = K8sObject | K8sHorizontalPodAutoscaler | K8sStatefulSet

fun issubclass :: "k8s_class \<Rightarrow> k8s_class \<Rightarrow> bool" where
  "issubclass c K8sObject = True"
| "issubclass c d = (c = d)"

text \<open>
  An instance: its class and the attributes \<open>__init__\<close> sets. The attribute \<open>model\<close>
  always holds a document model: every operation reads \<open>self.name\<close>, that is
  \<open>self.model.metadata.name\<close>, before anything else.
\<close>

record 'c K8sObject =
  cls :: k8s_class
  config :: K8sConfig
  obj_type :: string
  model :: "'c BaseModel"
  base_url :: string

text \<open>
  Modelled from the spec: the transport adapter \<open>HttpRequest\<close> of \<open>kubernetes.utils\<close>,
  which is not in the sources. It sends one HTTP request and returns a normalized result
  (success flag, status code, response body), or raises \<open>IOError\<close>. The request is the
  keyword arguments \<open>K8sObject.request\<close> passes to it; the body is a dict, as every
  \<open>state.get('data', dict())\<close> of the code presumes.
\<close>

record HttpRequest =
  rq_method :: string
  rq_host :: string
  rq_url :: string
  rq_auth :: "(string \<times> string) option"
  rq_cert :: "(string \<times> string) option"
  rq_ca_cert :: "string option"
  rq_ca_cert_data :: "string option"
  rq_data :: "json option"
  rq_token :: "string option"

record state =
  st_success :: bool
  st_status :: int
  st_data :: "(string \<times> json) list"

datatype send_result = Sent state | IOError

type_synonym 's transport = "HttpRequest \<Rightarrow> 's \<Rightarrow> send_result \<times> 's"

text \<open>
  What lies beyond the process: the remote server's state, which only the transport
  reads and changes, and the sequence of requests handed to the transport so far.
\<close>

record 's world =
  sent :: "HttpRequest list"
  server :: 's

section \<open>K8sObject\<close>

definition VALID_K8s_OBJS :: "string list" where
  "VALID_K8s_OBJS =
     [''Deployment'', ''PersistentVolume'', ''Pod'', ''ReplicaSet'',
      ''ReplicationController'', ''Secret'', ''Service'', ''Volume'']"

text \<open>The \<open>name\<close> property and its setter.\<close>

definition K8sObject_name :: "'c K8sObject \<Rightarrow> string option" where
  "K8sObject_name self = name (metadata (model self))"

definition K8sObject_set_name :: "string option \<Rightarrow> 'c BaseModel \<Rightarrow> 'c BaseModel" where
  "K8sObject_set_name n m = m\<lparr>metadata := (metadata m)\<lparr>name := n\<rparr>\<rparr>"

text \<open>
  \<open>__init__\<close>. The collaborators it calls are not in the sources and are parameters:
  \<open>K8sConfig()\<close> (which may raise), \<open>str_to_class\<close>, and \<open>BaseUrls.get_base_url\<close>
  (\<open>None\<close> when it raises). The first argument is the class being instantiated.
\<close>

definition K8sObject_init ::
  "(k8s_error + K8sConfig) \<Rightarrow> (string \<Rightarrow> 'c BaseModel) \<Rightarrow>
   (string \<Rightarrow> string \<Rightarrow> string \<Rightarrow> string option) \<Rightarrow>
   k8s_class \<Rightarrow> K8sConfig option \<Rightarrow> string option \<Rightarrow> string option \<Rightarrow>
   k8s_error + 'c K8sObject" where
  "K8sObject_init default_config str_to_class get_base_url c cfg ty n =
     (case (case cfg of None \<Rightarrow> default_config | Some k \<Rightarrow> Inr k) of
        Inl e \<Rightarrow> Inl e
      | Inr k \<Rightarrow>
          (case ty of
             None \<Rightarrow> Inl SyntaxError
           | Some t \<Rightarrow>
               if t \<notin> set VALID_K8s_OBJS then Inl SyntaxError
               else
                 (case get_base_url (version k) (namespace k) t of
                    None \<Rightarrow> Inl Exception
                  | Some u \<Rightarrow>
                      Inr \<lparr>cls = c, config = k, obj_type = t,
                           model = K8sObject_set_name n (str_to_class t),
                           base_url = u\<rparr>)))"

text \<open>
  \<open>__eq__\<close>: \<open>None\<close> is \<open>NotImplemented\<close>. \<open>isinstance(other, self.__class__)\<close> holds
  when the class of \<open>other\<close> is the class of \<open>self\<close> or derives from it.
\<close>

definition K8sObject_eq :: "'c K8sObject \<Rightarrow> 'c K8sObject \<Rightarrow> bool option" where
  "K8sObject_eq self other =
     (if issubclass (cls other) (cls self)
      then Some (namespace (config self) = namespace (config other)
                 \<and> K8sObject_name self = K8sObject_name other)
      else None)"

text \<open>
  The expression \<open>a == b\<close> on two distinct instances: Python calls \<open>a.__eq__(b)\<close>, on
  \<open>NotImplemented\<close> the reflected \<open>b.__eq__(a)\<close>, and when both decline it compares
  identities, which differ.
\<close>

definition py_eq :: "'c K8sObject \<Rightarrow> 'c K8sObject \<Rightarrow> bool" where
  "py_eq a b =
     (case K8sObject_eq a b of
        Some r \<Rightarrow> r
      | None \<Rightarrow> (case K8sObject_eq b a of Some r \<Rightarrow> r | None \<Rightarrow> False))"

text \<open>\<open>serialize\<close> delegates to the model's own \<open>serialize()\<close>, a parameter.\<close>

definition K8sObject_serialize :: "('c BaseModel \<Rightarrow> json) \<Rightarrow> 'c K8sObject \<Rightarrow> json" where
  "K8sObject_serialize ser self = ser (model self)"

text \<open>
  \<open>request\<close>: the callers in these sources pass \<open>method\<close>, \<open>url\<close> and \<open>data\<close> only, so
  every other argument is \<open>None\<close> and filled from the configuration. An \<open>IOError\<close> of
  the transport becomes \<open>BadRequestException\<close>.
\<close>

definition K8sObject_request ::
  "'s transport \<Rightarrow> 'c K8sObject \<Rightarrow> string \<Rightarrow> string option \<Rightarrow> json option \<Rightarrow>
   's world \<Rightarrow> (k8s_error + state) \<times> 's world" where
  "K8sObject_request send self method url data w =
     (let r = \<lparr>rq_method = method,
                rq_host = api_host (config self),
                rq_url = (case url of None \<Rightarrow> base_url self | Some u \<Rightarrow> u),
                rq_auth = auth (config self),
                rq_cert = cert (config self),
                rq_ca_cert = ca_cert (config self),
                rq_ca_cert_data = ca_cert_data (config self),
                rq_data = data,
                rq_token = token (config self)\<rparr>
      in case send r (server w) of
           (res, s') \<Rightarrow>
             (case res of Sent st \<Rightarrow> Inr st | IOError \<Rightarrow> Inl BadRequestException,
              \<lparr>sent = sent w @ [r], server = s'\<rparr>))"

text \<open>The four-way classification shared by \<open>list\<close> and \<open>create\<close>.\<close>

definition K8sObject_list ::
  "'s transport \<Rightarrow> 'c K8sObject \<Rightarrow> 's world \<Rightarrow> (k8s_error + json) \<times> 's world" where
  "K8sObject_list send self w =
     (case K8sObject_request send self ''GET'' None None w of
        (Inl e, w') \<Rightarrow> (Inl e, w')
      | (Inr st, w') \<Rightarrow>
          if st_status st = 0 then (Inl Exception, w')
          else if \<not> st_success st then
            (if st_status st = 401 then (Inl UnauthorizedException, w')
             else if st_status st = 409 then (Inl AlreadyExistsException, w')
             else if st_status st = 422 then (Inl UnprocessableEntityException, w')
             else (Inl BadRequestException, w'))
          else
            (case map_of (st_data st) ''items'' of
               None \<Rightarrow> (Inr (JList []), w')
             | Some v \<Rightarrow> (Inr v, w')))"

definition K8sObject_get_model ::
  "'s transport \<Rightarrow> 'c K8sObject \<Rightarrow> 's world \<Rightarrow> (k8s_error + json) \<times> 's world" where
  "K8sObject_get_model send self w =
     (case K8sObject_name self of
        None \<Rightarrow> (Inl SyntaxError, w)
      | Some n \<Rightarrow>
          (case K8sObject_request send self ''GET'' (Some (base_url self @ ''/'' @ n)) None w of
             (Inl e, w') \<Rightarrow> (Inl e, w')
           | (Inr st, w') \<Rightarrow>
               if \<not> st_success st then (Inl NotFoundException, w')
               else (Inr (JDict (st_data st)), w')))"

text \<open>
  The mutating operations return the raised error or \<open>()\<close> for \<open>return self\<close>, together
  with the instance as the call leaves it.
\<close>

definition K8sObject_create ::
  "'s transport \<Rightarrow> ('c BaseModel \<Rightarrow> json) \<Rightarrow> 'c K8sObject \<Rightarrow> 's world \<Rightarrow>
   (k8s_error + unit) \<times> 'c K8sObject \<times> 's world" where
  "K8sObject_create send ser self w =
     (case K8sObject_name self of
        None \<Rightarrow> (Inl SyntaxError, self, w)
      | Some n \<Rightarrow>
          (let self1 =
                 (if resource_version (metadata (model self)) \<noteq> None
                  then self\<lparr>model :=
                         (model self)\<lparr>metadata :=
                           (metadata (model self))\<lparr>resource_version := None\<rparr>\<rparr>\<rparr>
                  else self)
           in case K8sObject_request send self1 ''POST'' (Some (base_url self1))
                     (Some (K8sObject_serialize ser self1)) w of
                (Inl e, w') \<Rightarrow> (Inl e, self1, w')
              | (Inr st, w') \<Rightarrow>
                  if \<not> st_success st then
                    (if st_status st = 401 then (Inl UnauthorizedException, self1, w')
                     else if st_status st = 409 then (Inl AlreadyExistsException, self1, w')
                     else if st_status st = 422 then
                       (Inl UnprocessableEntityException, self1, w')
                     else (Inl BadRequestException, self1, w'))
                  else (Inr (), self1, w')))"

definition K8sObject_update ::
  "'s transport \<Rightarrow> ('c BaseModel \<Rightarrow> json) \<Rightarrow> 'c K8sObject \<Rightarrow> 's world \<Rightarrow>
   (k8s_error + unit) \<times> 'c K8sObject \<times> 's world" where
  "K8sObject_update send ser self w =
     (case K8sObject_name self of
        None \<Rightarrow> (Inl SyntaxError, self, w)
      | Some n \<Rightarrow>
          (let self1 =
                 (if uid (metadata (model self)) \<noteq> None
                  then self\<lparr>model :=
                         (model self)\<lparr>metadata := (metadata (model self))\<lparr>uid := None\<rparr>\<rparr>\<rparr>
                  else self)
           in case K8sObject_request send self1 ''PUT'' (Some (base_url self1 @ ''/'' @ n))
                     (Some (K8sObject_serialize ser self1)) w of
                (Inl e, w') \<Rightarrow> (Inl e, self1, w')
              | (Inr st, w') \<Rightarrow>
                  if \<not> st_success st then
                    (if st_status st = 404 then (Inl NotFoundException, self1, w')
                     else if st_status st = 422 then
                       (Inl UnprocessableEntityException, self1, w')
                     else (Inl BadRequestException, self1, w'))
                  else (Inr (), self1, w')))"

text \<open>\<open>delete\<close>; \<open>DeleteOptions().serialize()\<close> is the parameter \<open>delete_options\<close>.\<close>

definition K8sObject_delete ::
  "'s transport \<Rightarrow> json \<Rightarrow> 'c K8sObject \<Rightarrow> 's world \<Rightarrow>
   (k8s_error + unit) \<times> 'c K8sObject \<times> 's world" where
  "K8sObject_delete send delete_options self w =
     (case K8sObject_name self of
        None \<Rightarrow> (Inl SyntaxError, self, w)
      | Some n \<Rightarrow>
          (case K8sObject_request send self ''DELETE'' (Some (base_url self @ ''/'' @ n))
                  (Some delete_options) w of
             (Inl e, w') \<Rightarrow> (Inl e, self, w')
           | (Inr st, w') \<Rightarrow>
               if \<not> st_success st then
                 (if st_status st = 404 then (Inl NotFoundException, self, w')
                  else (Inl BadRequestException, self, w'))
               else (Inr (), self, w')))"

section \<open>Resource-specific subclasses\<close>

text \<open>Python's \<open>p in s\<close> on two strings: \<open>p\<close> occurs in \<open>s\<close> as a contiguous run.\<close>

fun startswith :: "string \<Rightarrow> string \<Rightarrow> bool" where
  "startswith s [] = True"
| "startswith [] (c # p) = False"
| "startswith (d # s) (c # p) = (d = c \<and> startswith s p)"

fun str_in :: "string \<Rightarrow> string \<Rightarrow> bool" where
  "str_in p [] = (p = [])"
| "str_in p (c # s) = (startswith (c # s) p \<or> str_in p s)"

text \<open>\<open>list(map(f, xs))\<close> and \<open>list(filter(f, xs))\<close> where \<open>f\<close> may raise: the first error wins.\<close>

fun map_raising :: "('a \<Rightarrow> 'e + 'b) \<Rightarrow> 'a list \<Rightarrow> 'e + 'b list" where
  "map_raising f [] = Inr []"
| "map_raising f (x # xs) =
     (case f x of
        Inl e \<Rightarrow> Inl e
      | Inr y \<Rightarrow> (case map_raising f xs of Inl e \<Rightarrow> Inl e | Inr ys \<Rightarrow> Inr (y # ys)))"

fun filter_raising :: "('a \<Rightarrow> 'e + bool) \<Rightarrow> 'a list \<Rightarrow> 'e + 'a list" where
  "filter_raising f [] = Inr []"
| "filter_raising f (x # xs) =
     (case f x of
        Inl e \<Rightarrow> Inl e
      | Inr b \<Rightarrow>
          (case filter_raising f xs of
             Inl e \<Rightarrow> Inl e
           | Inr ys \<Rightarrow> Inr (if b then x # ys else ys)))"

text \<open>
  Iterating over a value: a list gives its elements, a dict its keys, a string its
  characters; anything else raises \<open>TypeError\<close>.
\<close>

fun py_iter :: "json \<Rightarrow> k8s_error + json list" where
  "py_iter (JList xs) = Inr xs"
| "py_iter (JDict d) = Inr (map (\<lambda>kv. JStr (fst kv)) d)"
| "py_iter (JStr s) = Inr (map (\<lambda>c. JStr [c]) s)"
| "py_iter v = Inl TypeError"

definition K8sHorizontalPodAutoscaler_init ::
  "(k8s_error + K8sConfig) \<Rightarrow> (string \<Rightarrow> 'c BaseModel) \<Rightarrow>
   (string \<Rightarrow> string \<Rightarrow> string \<Rightarrow> string option) \<Rightarrow>
   K8sConfig option \<Rightarrow> string option \<Rightarrow> k8s_error + 'c K8sObject" where
  "K8sHorizontalPodAutoscaler_init default_config str_to_class get_base_url cfg n =
     K8sObject_init default_config str_to_class get_base_url K8sHorizontalPodAutoscaler
       cfg (Some ''HorizontalPodAutoscaler'') n"

definition K8sStatefulSet_init ::
  "(k8s_error + K8sConfig) \<Rightarrow> (string \<Rightarrow> 'c BaseModel) \<Rightarrow>
   (string \<Rightarrow> string \<Rightarrow> string \<Rightarrow> string option) \<Rightarrow>
   K8sConfig option \<Rightarrow> string option \<Rightarrow> k8s_error + 'c K8sObject" where
  "K8sStatefulSet_init default_config str_to_class get_base_url cfg n =
     K8sObject_init default_config str_to_class get_base_url K8sStatefulSet
       cfg (Some ''StatefulSet'') n"

text \<open>
  \<open>get\<close>: \<open>self.model = HorizontalPodAutoscaler(self.get_model())\<close>. The document-model
  constructors (\<open>kubernetes.models.v1.HorizontalPodAutoscaler\<close>,
  \<open>kubernetes.models.v1beta1.StatefulSet\<close>) are not in the sources and are the
  parameter \<open>mk\<close>, which may raise on a document it rejects.
\<close>

definition K8sHorizontalPodAutoscaler_get ::
  "(json \<Rightarrow> k8s_error + 'c BaseModel) \<Rightarrow> 's transport \<Rightarrow> 'c K8sObject \<Rightarrow> 's world \<Rightarrow>
   (k8s_error + unit) \<times> 'c K8sObject \<times> 's world" where
  "K8sHorizontalPodAutoscaler_get mk send self w =
     (case K8sObject_get_model send self w of
        (Inl e, w') \<Rightarrow> (Inl e, self, w')
      | (Inr doc, w') \<Rightarrow>
          (case mk doc of
             Inl e \<Rightarrow> (Inl e, self, w')
           | Inr m \<Rightarrow> (Inr (), self\<lparr>model := m\<rparr>, w')))"

definition K8sHorizontalPodAutoscaler_create ::
  "(json \<Rightarrow> k8s_error + 'c BaseModel) \<Rightarrow> 's transport \<Rightarrow> ('c BaseModel \<Rightarrow> json) \<Rightarrow>
   'c K8sObject \<Rightarrow> 's world \<Rightarrow> (k8s_error + unit) \<times> 'c K8sObject \<times> 's world" where
  "K8sHorizontalPodAutoscaler_create mk send ser self w =
     (case K8sObject_create send ser self w of
        (Inl e, self1, w') \<Rightarrow> (Inl e, self1, w')
      | (Inr u, self1, w') \<Rightarrow> K8sHorizontalPodAutoscaler_get mk send self1 w')"

definition K8sHorizontalPodAutoscaler_update ::
  "(json \<Rightarrow> k8s_error + 'c BaseModel) \<Rightarrow> 's transport \<Rightarrow> ('c BaseModel \<Rightarrow> json) \<Rightarrow>
   'c K8sObject \<Rightarrow> 's world \<Rightarrow> (k8s_error + unit) \<times> 'c K8sObject \<times> 's world" where
  "K8sHorizontalPodAutoscaler_update mk send ser self w =
     (case K8sObject_update send ser self w of
        (Inl e, self1, w') \<Rightarrow> (Inl e, self1, w')
      | (Inr u, self1, w') \<Rightarrow> K8sHorizontalPodAutoscaler_get mk send self1 w')"

text \<open>
  \<open>list\<close>: the raw items become document models, are filtered by \<open>pattern in x.name\<close>
  (a \<open>TypeError\<close> when the name is \<open>None\<close>), and each is wrapped in a new instance built
  by the class's own constructor with the caller's configuration.
\<close>

definition K8sHorizontalPodAutoscaler_list ::
  "(k8s_error + K8sConfig) \<Rightarrow> (string \<Rightarrow> 'c BaseModel) \<Rightarrow>
   (string \<Rightarrow> string \<Rightarrow> string \<Rightarrow> string option) \<Rightarrow>
   (json \<Rightarrow> k8s_error + 'c BaseModel) \<Rightarrow> 's transport \<Rightarrow> 'c K8sObject \<Rightarrow>
   string option \<Rightarrow> 's world \<Rightarrow> (k8s_error + 'c K8sObject list) \<times> 's world" where
  "K8sHorizontalPodAutoscaler_list default_config str_to_class get_base_url mk send self
       pattern w =
     (case K8sObject_list send self w of
        (Inl e, w') \<Rightarrow> (Inl e, w')
      | (Inr ls, w') \<Rightarrow>
          (case py_iter ls of
             Inl e \<Rightarrow> (Inl e, w')
           | Inr xs \<Rightarrow>
               (case map_raising mk xs of
                  Inl e \<Rightarrow> (Inl e, w')
                | Inr hpas \<Rightarrow>
                    (case (case pattern of
                             None \<Rightarrow> Inr hpas
                           | Some p \<Rightarrow>
                               filter_raising
                                 (\<lambda>x. case name (metadata x) of
                                         None \<Rightarrow> Inl TypeError
                                       | Some s \<Rightarrow> Inr (str_in p s))
                                 hpas) of
                       Inl e \<Rightarrow> (Inl e, w')
                     | Inr hpas1 \<Rightarrow>
                         (map_raising
                            (\<lambda>x. case K8sHorizontalPodAutoscaler_init default_config
                                         str_to_class get_base_url (Some (config self))
                                         (name (metadata x)) of
                                    Inl e \<Rightarrow> Inl e
                                  | Inr z \<Rightarrow> Inr (z\<lparr>model := x\<rparr>))
                            hpas1,
                          w')))))"

definition K8sStatefulSet_get ::
  "(json \<Rightarrow> k8s_error + 'c BaseModel) \<Rightarrow> 's transport \<Rightarrow> 'c K8sObject \<Rightarrow> 's world \<Rightarrow>
   (k8s_error + unit) \<times> 'c K8sObject \<times> 's world" where
  "K8sStatefulSet_get mk send self w =
     (case K8sObject_get_model send self w of
        (Inl e, w') \<Rightarrow> (Inl e, self, w')
      | (Inr doc, w') \<Rightarrow>
          (case mk doc of
             Inl e \<Rightarrow> (Inl e, self, w')
           | Inr m \<Rightarrow> (Inr (), self\<lparr>model := m\<rparr>, w')))"

definition K8sStatefulSet_create ::
  "(json \<Rightarrow> k8s_error + 'c BaseModel) \<Rightarrow> 's transport \<Rightarrow> ('c BaseModel \<Rightarrow> json) \<Rightarrow>
   'c K8sObject \<Rightarrow> 's world \<Rightarrow> (k8s_error + unit) \<times> 'c K8sObject \<times> 's world" where
  "K8sStatefulSet_create mk send ser self w =
     (case K8sObject_create send ser self w of
        (Inl e, self1, w') \<Rightarrow> (Inl e, self1, w')
      | (Inr u, self1, w') \<Rightarrow> K8sStatefulSet_get mk send self1 w')"

definition K8sStatefulSet_update ::
  "(json \<Rightarrow> k8s_error + 'c BaseModel) \<Rightarrow> 's transport \<Rightarrow> ('c BaseModel \<Rightarrow> json) \<Rightarrow>
   'c K8sObject \<Rightarrow> 's world \<Rightarrow> (k8s_error + unit) \<times> 'c K8sObject \<times> 's world" where
  "K8sStatefulSet_update mk send ser self w =
     (case K8sObject_update send ser self w of
        (Inl e, self1, w') \<Rightarrow> (Inl e, self1, w')
      | (Inr u, self1, w') \<Rightarrow> K8sStatefulSet_get mk send self1 w')"

section \<open>Concrete collaborators and inputs\<close>

text \<open>
  A transport mock that answers every request with the same result and leaves the
  server alone, and one that raises \<open>IOError\<close>.
\<close>

definition mock_send :: "state \<Rightarrow> unit transport" where
  "mock_send st = (\<lambda>r s. (Sent st, s))"

definition http :: "int \<Rightarrow> (string \<times> json) list \<Rightarrow> state" where
  "http code body = \<lparr>st_success = (code = 200 \<or> code = 201), st_status = code, st_data = body\<rparr>"

definition fresh_world :: "unit world" where
  "fresh_world = \<lparr>sent = [], server = ()\<rparr>"

definition default_namespace_config :: K8sConfig where
  "default_namespace_config =
     \<lparr>api_host = ''localhost:8080'', namespace = ''default'', version = ''v1'',
      auth = None, cert = None, token = None, ca_cert = None, ca_cert_data = None\<rparr>"

text \<open>A serializer and a document-model constructor for models whose content is a document.\<close>

definition opt_str :: "string option \<Rightarrow> json" where
  "opt_str v = (case v of None \<Rightarrow> JNone | Some s \<Rightarrow> JStr s)"

definition serialize_meta :: "json BaseModel \<Rightarrow> json" where
  "serialize_meta m =
     JDict [(''metadata'',
             JDict [(''name'', opt_str (name (metadata m))),
                    (''resourceVersion'', opt_str (resource_version (metadata m))),
                    (''uid'', opt_str (uid (metadata m)))]),
            (''content'', content m)]"

definition str_at :: "string \<Rightarrow> json \<Rightarrow> string option" where
  "str_at k doc =
     (case doc of
        JDict d \<Rightarrow> (case map_of d k of Some (JStr s) \<Rightarrow> Some s | _ \<Rightarrow> None)
      | _ \<Rightarrow> None)"

definition build_model :: "json \<Rightarrow> k8s_error + json BaseModel" where
  "build_model doc =
     (case doc of
        JDict d \<Rightarrow>
          (let md = (case map_of d ''metadata'' of None \<Rightarrow> JNone | Some v \<Rightarrow> v)
           in Inr \<lparr>metadata = \<lparr>name = str_at ''name'' md,
                                resource_version = str_at ''resourceVersion'' md,
                                uid = str_at ''uid'' md\<rparr>,
                   content = doc\<rparr>)
      | _ \<Rightarrow> Inl SyntaxError)"

definition empty_model :: "string \<Rightarrow> json BaseModel" where
  "empty_model t =
     \<lparr>metadata = \<lparr>name = None, resource_version = None, uid = None\<rparr>, content = JNone\<rparr>"

definition path_url :: "string \<Rightarrow> string \<Rightarrow> string \<Rightarrow> string option" where
  "path_url v ns t = Some (''/api/'' @ v @ ''/namespaces/'' @ ns @ ''/'' @ t)"

definition resource ::
  "k8s_class \<Rightarrow> string \<Rightarrow> string option \<Rightarrow> string option \<Rightarrow> string option \<Rightarrow> json \<Rightarrow>
   json K8sObject" where
  "resource c t n rv u body =
     \<lparr>cls = c, config = default_namespace_config, obj_type = t,
      model = \<lparr>metadata = \<lparr>name = n, resource_version = rv, uid = u\<rparr>, content = body\<rparr>,
      base_url = ''/api/v1/namespaces/default/'' @ t\<rparr>"

section \<open>What each operation computes\<close>

text \<open>
  The constructor rejects both resource kinds, and each operation on a named instance is
  one request followed by the interpretation of its result.
\<close>

lemma obj_type_rejected:
  "K8sObject_init dc s2c gbu c (Some k) (Some ''HorizontalPodAutoscaler'') n = Inl SyntaxError"
  "K8sObject_init dc s2c gbu c (Some k) (Some ''StatefulSet'') n = Inl SyntaxError"
  by (simp_all add: K8sObject_init_def VALID_K8s_OBJS_def)

lemma request_fst:
  "fst (K8sObject_request send self m u d w) =
     (case fst (send \<lparr>rq_method = m, rq_host = api_host (config self),
                rq_url = (case u of None \<Rightarrow> base_url self | Some v \<Rightarrow> v),
                rq_auth = auth (config self), rq_cert = cert (config self),
                rq_ca_cert = ca_cert (config self),
                rq_ca_cert_data = ca_cert_data (config self),
                rq_data = d, rq_token = token (config self)\<rparr> (server w)) of
        Sent st \<Rightarrow> Inr st | IOError \<Rightarrow> Inl BadRequestException)"
  by (simp add: K8sObject_request_def Let_def split: prod.splits)

lemma request_sent:
  "sent (snd (K8sObject_request send self m u d w)) =
     sent w @ [\<lparr>rq_method = m, rq_host = api_host (config self),
                rq_url = (case u of None \<Rightarrow> base_url self | Some v \<Rightarrow> v),
                rq_auth = auth (config self), rq_cert = cert (config self),
                rq_ca_cert = ca_cert (config self),
                rq_ca_cert_data = ca_cert_data (config self),
                rq_data = d, rq_token = token (config self)\<rparr>]"
  by (simp add: K8sObject_request_def Let_def split: prod.splits)

lemma request_answered:
  assumes "\<forall>r. fst (send r (server w)) = Sent st"
  shows "fst (K8sObject_request send self m u d w) = Inr st"
  using assms by (simp add: request_fst)

lemma create_named:
  assumes "K8sObject_name self = Some n"
  shows "K8sObject_create send ser self w =
     (let self1 = self\<lparr>model := (model self)\<lparr>metadata := (metadata (model self))\<lparr>resource_version := None\<rparr>\<rparr>\<rparr>;
          rw = K8sObject_request send self1 ''POST'' (Some (base_url self))
                     (Some (ser (model self1))) w
      in (case fst rw of
            Inl e \<Rightarrow> Inl e
          | Inr st \<Rightarrow>
              if st_success st then Inr ()
              else Inl (if st_status st = 401 then UnauthorizedException
                   else if st_status st = 409 then AlreadyExistsException
                   else if st_status st = 422 then UnprocessableEntityException
                   else BadRequestException),
          self1, snd rw))"
proof (cases "resource_version (metadata (model self))")
  case None
  then have e: "self\<lparr>model := (model self)\<lparr>metadata := (metadata (model self))\<lparr>resource_version := None\<rparr>\<rparr>\<rparr> = self"
    by simp
  show ?thesis
    unfolding Let_def e
    using assms None
    by (simp add: K8sObject_create_def K8sObject_serialize_def split: prod.splits sum.splits)
next
  case (Some v)
  then show ?thesis
    using assms
    by (simp add: K8sObject_create_def K8sObject_serialize_def Let_def split: prod.splits sum.splits)
qed

lemma update_named:
  assumes "K8sObject_name self = Some n"
  shows "K8sObject_update send ser self w =
     (let self1 = self\<lparr>model := (model self)\<lparr>metadata := (metadata (model self))\<lparr>uid := None\<rparr>\<rparr>\<rparr>;
          rw = K8sObject_request send self1 ''PUT'' (Some (base_url self @ ''/'' @ n))
                     (Some (ser (model self1))) w
      in (case fst rw of
            Inl e \<Rightarrow> Inl e
          | Inr st \<Rightarrow>
              if st_success st then Inr ()
              else Inl (if st_status st = 404 then NotFoundException
                   else if st_status st = 422 then UnprocessableEntityException
                   else BadRequestException),
          self1, snd rw))"
proof (cases "uid (metadata (model self))")
  case None
  then have e: "self\<lparr>model := (model self)\<lparr>metadata := (metadata (model self))\<lparr>uid := None\<rparr>\<rparr>\<rparr> = self"
    by simp
  show ?thesis
    unfolding Let_def e
    using assms None
    by (simp add: K8sObject_update_def K8sObject_serialize_def split: prod.splits sum.splits)
next
  case (Some v)
  then show ?thesis
    using assms
    by (simp add: K8sObject_update_def K8sObject_serialize_def Let_def split: prod.splits sum.splits)
qed

lemma delete_named:
  assumes "K8sObject_name self = Some n"
  shows "K8sObject_delete send dopts self w =
     (let rw = K8sObject_request send self ''DELETE'' (Some (base_url self @ ''/'' @ n))
                     (Some dopts) w
      in (case fst rw of
            Inl e \<Rightarrow> Inl e
          | Inr st \<Rightarrow>
              if st_success st then Inr ()
              else Inl (if st_status st = 404 then NotFoundException
                   else BadRequestException),
          self, snd rw))"
  using assms
  by (simp add: K8sObject_delete_def Let_def split: prod.splits sum.splits)

lemma get_model_named:
  assumes "K8sObject_name self = Some n"
  shows "K8sObject_get_model send self w =
     (let rw = K8sObject_request send self ''GET'' (Some (base_url self @ ''/'' @ n)) None w
      in (case fst rw of
            Inl e \<Rightarrow> Inl e
          | Inr st \<Rightarrow>
              if st_success st then Inr (JDict (st_data st)) else Inl NotFoundException,
          snd rw))"
  using assms
  by (simp add: K8sObject_get_model_def Let_def split: prod.splits sum.splits)

lemma list_result:
  "K8sObject_list send self w =
     (let rw = K8sObject_request send self ''GET'' None None w
      in (case fst rw of
            Inl e \<Rightarrow> Inl e
          | Inr st \<Rightarrow>
              if st_status st = 0 then Inl Exception
              else if st_success st then
                Inr (case map_of (st_data st) ''items'' of None \<Rightarrow> JList [] | Some v \<Rightarrow> v)
              else Inl (if st_status st = 401 then UnauthorizedException
                   else if st_status st = 409 then AlreadyExistsException
                   else if st_status st = 422 then UnprocessableEntityException
                   else BadRequestException),
          snd rw))"
  by (simp add: K8sObject_list_def Let_def split: prod.splits sum.splits option.splits)

text \<open>
  Since the constructor rejects the kind, \<open>list\<close> of the autoscaler class can return
  nothing but the empty list: whenever an item is left after filtering, it raises.
\<close>

lemma map_raising_always_raising:
  "map_raising (\<lambda>x. Inl e) xs = Inr zs \<Longrightarrow> zs = []"
  by (cases xs) auto

lemma list_returns_no_item:
  assumes "fst (K8sHorizontalPodAutoscaler_list dc s2c gbu mk send self p w) = Inr zs"
  shows "zs = []"
  using assms
  by (auto simp: K8sHorizontalPodAutoscaler_list_def K8sHorizontalPodAutoscaler_init_def
      obj_type_rejected
      split: prod.splits sum.splits option.splits dest: map_raising_always_raising)

section \<open>Properties of the lifecycle operations\<close>

text \<open>
  The instance used below: a resource named \<open>web\<close> in namespace \<open>default\<close>; the
  transport mock \<open>mock_send (http c body)\<close> answers every request with status \<open>c\<close>.
\<close>

text \<open>
  C1. Constructing a \<open>K8sHorizontalPodAutoscaler\<close> or a \<open>K8sStatefulSet\<close> with a valid
  configuration and a name is claimed to succeed and compute the base URL. In the code
  neither kind is in \<open>VALID_K8s_OBJS\<close>, so for every configuration and every name both
  constructors raise \<open>SyntaxError\<close> before the base URL is computed.
\<close>

theorem subclass_constructors_raise:
  "K8sHorizontalPodAutoscaler_init dc s2c gbu (Some k) n = Inl SyntaxError
   \<and> K8sStatefulSet_init dc s2c gbu (Some k) n = Inl SyntaxError"
  by (simp add: K8sHorizontalPodAutoscaler_init_def K8sStatefulSet_init_def obj_type_rejected)

text \<open>
  C2. A non-success response is classified operation by operation, not by one contract
  for all: \<open>create\<close> and \<open>list\<close> map 401 to unauthorized, 409 to already-exists, 422 to
  unprocessable-entity and anything else to bad-request (\<open>list\<close> first raises a plain
  \<open>Exception\<close> on a zero status); \<open>update\<close> maps 404 to not-found, 422 to
  unprocessable-entity and anything else, 401 included, to bad-request; \<open>delete\<close> maps
  404 to not-found and anything else to bad-request; \<open>get_model\<close> maps every
  non-success status to not-found.
\<close>

theorem status_classification_per_operation:
  assumes "K8sObject_name self \<noteq> None"
    and "\<forall>r. fst (send r (server w)) = Sent st"
    and "\<not> st_success st"
  shows "fst (K8sObject_create send ser self w) =
           Inl (if st_status st = 401 then UnauthorizedException
                else if st_status st = 409 then AlreadyExistsException
                else if st_status st = 422 then UnprocessableEntityException
                else BadRequestException)
       \<and> fst (K8sObject_list send self w) =
           Inl (if st_status st = 0 then Exception
                else if st_status st = 401 then UnauthorizedException
                else if st_status st = 409 then AlreadyExistsException
                else if st_status st = 422 then UnprocessableEntityException
                else BadRequestException)
       \<and> fst (K8sObject_update send ser self w) =
           Inl (if st_status st = 404 then NotFoundException
                else if st_status st = 422 then UnprocessableEntityException
                else BadRequestException)
       \<and> fst (K8sObject_delete send dopts self w) =
           Inl (if st_status st = 404 then NotFoundException else BadRequestException)
       \<and> fst (K8sObject_get_model send self w) = Inl NotFoundException"
proof -
  from assms(1) obtain n where n: "K8sObject_name self = Some n" by auto
  have c: "fst (K8sObject_create send ser self w) =
           Inl (if st_status st = 401 then UnauthorizedException
                else if st_status st = 409 then AlreadyExistsException
                else if st_status st = 422 then UnprocessableEntityException
                else BadRequestException)"
    using assms(2,3) by (simp add: create_named [OF n] Let_def request_answered)
  have l: "fst (K8sObject_list send self w) =
           Inl (if st_status st = 0 then Exception
                else if st_status st = 401 then UnauthorizedException
                else if st_status st = 409 then AlreadyExistsException
                else if st_status st = 422 then UnprocessableEntityException
                else BadRequestException)"
    using assms(2,3) by (simp add: list_result Let_def request_answered)
  have u: "fst (K8sObject_update send ser self w) =
           Inl (if st_status st = 404 then NotFoundException
                else if st_status st = 422 then UnprocessableEntityException
                else BadRequestException)"
    using assms(2,3) by (simp add: update_named [OF n] Let_def request_answered)
  have d: "fst (K8sObject_delete send dopts self w) =
           Inl (if st_status st = 404 then NotFoundException else BadRequestException)"
    using assms(2,3) by (simp add: delete_named [OF n] Let_def request_answered)
  have g: "fst (K8sObject_get_model send self w) = Inl NotFoundException"
    using assms(2,3) by (simp add: get_model_named [OF n] Let_def request_answered)
  from c l u d g show ?thesis by blast
qed

text \<open>At status 401 the five operations give three different classifications.\<close>

theorem status_classification_per_operation_witness:
  "fst (K8sObject_create (mock_send (http 401 [])) serialize_meta
          (resource K8sObject ''Pod'' (Some ''web'') None None JNone) fresh_world)
     = Inl UnauthorizedException
   \<and> fst (K8sObject_list (mock_send (http 401 []))
          (resource K8sObject ''Pod'' (Some ''web'') None None JNone) fresh_world)
     = Inl UnauthorizedException
   \<and> fst (K8sObject_update (mock_send (http 401 [])) serialize_meta
          (resource K8sObject ''Pod'' (Some ''web'') None None JNone) fresh_world)
     = Inl BadRequestException
   \<and> fst (K8sObject_delete (mock_send (http 401 [])) JNone
          (resource K8sObject ''Pod'' (Some ''web'') None None JNone) fresh_world)
     = Inl BadRequestException
   \<and> fst (K8sObject_get_model (mock_send (http 401 []))
          (resource K8sObject ''Pod'' (Some ''web'') None None JNone) fresh_world)
     = Inl NotFoundException"
proof -
  have h1: "K8sObject_name (resource K8sObject ''Pod'' (Some ''web'') None None JNone) \<noteq> None"
    by (simp add: K8sObject_name_def resource_def)
  have h2: "\<forall>r. fst (mock_send (http 401 []) r (server fresh_world)) = Sent (http 401 [])"
    by (simp add: mock_send_def)
  have h3: "\<not> st_success (http 401 [])"
    by (simp add: http_def)
  from status_classification_per_operation
    [where self = "resource K8sObject ''Pod'' (Some ''web'') None None JNone"
       and send = "mock_send (http 401 [])" and w = fresh_world and st = "http 401 []"
       and ser = serialize_meta and dopts = JNone, OF h1 h2 h3]
  show ?thesis by (simp add: http_def)
qed

text \<open>
  The contract as one rule for every operation fails on \<open>update\<close>: a 401 answer is
  raised as bad-request, not as unauthorized.
\<close>

theorem update_unauthorized_counterexample:
  "\<not> st_success (http 401 []) \<and> st_status (http 401 []) = 401
   \<and> fst (K8sObject_update (mock_send (http 401 [])) serialize_meta
          (resource K8sObject ''Pod'' (Some ''web'') None None JNone) fresh_world)
       = Inl BadRequestException
   \<and> fst (K8sObject_update (mock_send (http 401 [])) serialize_meta
          (resource K8sObject ''Pod'' (Some ''web'') None None JNone) fresh_world)
       \<noteq> Inl UnauthorizedException"
proof -
  have n: "K8sObject_name (resource K8sObject ''Pod'' (Some ''web'') None None JNone)
             = Some ''web''"
    by (simp add: K8sObject_name_def resource_def)
  have "fst (K8sObject_update (mock_send (http 401 [])) serialize_meta
          (resource K8sObject ''Pod'' (Some ''web'') None None JNone) fresh_world)
       = Inl BadRequestException"
    by (simp add: update_named [OF n] Let_def request_fst mock_send_def http_def)
  then show ?thesis by (simp add: http_def)
qed

text \<open>
  C3. On an instance whose name is \<open>None\<close>, \<open>create\<close>, \<open>update\<close> and \<open>delete\<close> (and the
  overrides of both subclasses, which call them first) raise \<open>SyntaxError\<close>, the
  invalid-state error, and leave the instance and the world as they were: the sequence of
  requests handed to the transport is unchanged, whatever the transport is.
\<close>

theorem unnamed_object_never_reaches_transport:
  assumes "K8sObject_name self = None"
  shows "K8sObject_create send ser self w = (Inl SyntaxError, self, w)
       \<and> K8sObject_update send ser self w = (Inl SyntaxError, self, w)
       \<and> K8sObject_delete send dopts self w = (Inl SyntaxError, self, w)
       \<and> K8sHorizontalPodAutoscaler_create mk send ser self w = (Inl SyntaxError, self, w)
       \<and> K8sHorizontalPodAutoscaler_update mk send ser self w = (Inl SyntaxError, self, w)
       \<and> K8sStatefulSet_create mk send ser self w = (Inl SyntaxError, self, w)
       \<and> K8sStatefulSet_update mk send ser self w = (Inl SyntaxError, self, w)"
  using assms
  by (simp add: K8sObject_create_def K8sObject_update_def K8sObject_delete_def
      K8sHorizontalPodAutoscaler_create_def K8sHorizontalPodAutoscaler_update_def
      K8sStatefulSet_create_def K8sStatefulSet_update_def)

theorem unnamed_object_never_reaches_transport_witness:
  "K8sObject_create (mock_send (http 201 [])) serialize_meta
       (resource K8sObject ''Pod'' None (Some ''7'') None JNone) fresh_world
     = (Inl SyntaxError, resource K8sObject ''Pod'' None (Some ''7'') None JNone,
        \<lparr>sent = [], server = ()\<rparr>)"
proof -
  have h: "K8sObject_name (resource K8sObject ''Pod'' None (Some ''7'') None JNone) = None"
    by (simp add: K8sObject_name_def resource_def)
  from unnamed_object_never_reaches_transport
    [OF h, of "mock_send (http 201 [])" serialize_meta fresh_world]
  have "K8sObject_create (mock_send (http 201 [])) serialize_meta
       (resource K8sObject ''Pod'' None (Some ''7'') None JNone) fresh_world
     = (Inl SyntaxError, resource K8sObject ''Pod'' None (Some ''7'') None JNone, fresh_world)"
    by (rule conjunct1)
  then show ?thesis by (simp add: fresh_world_def)
qed

text \<open>
  C4. When \<open>get()\<close> of either subclass is answered with a non-success response, a 404 in
  particular, it raises not-found and the held document model is the one held before:
  the assignment to \<open>self.model\<close> is never reached.
\<close>

theorem get_not_found_keeps_model:
  assumes "K8sObject_name self \<noteq> None"
    and "\<forall>r. fst (send r (server w)) = Sent st"
    and "\<not> st_success st"
  shows "fst (K8sHorizontalPodAutoscaler_get mk send self w) = Inl NotFoundException
       \<and> model (fst (snd (K8sHorizontalPodAutoscaler_get mk send self w))) = model self
       \<and> fst (K8sStatefulSet_get mk send self w) = Inl NotFoundException
       \<and> model (fst (snd (K8sStatefulSet_get mk send self w))) = model self"
proof -
  from assms(1) obtain n where n: "K8sObject_name self = Some n" by auto
  have "\<exists>w'. K8sObject_get_model send self w = (Inl NotFoundException, w')"
    using assms(2,3) by (simp add: get_model_named [OF n] Let_def request_answered)
  then obtain w' where "K8sObject_get_model send self w = (Inl NotFoundException, w')" ..
  then show ?thesis
    by (simp add: K8sHorizontalPodAutoscaler_get_def K8sStatefulSet_get_def)
qed

theorem get_not_found_keeps_model_witness:
  "fst (K8sHorizontalPodAutoscaler_get build_model (mock_send (http 404 []))
         (resource K8sHorizontalPodAutoscaler ''HorizontalPodAutoscaler'' (Some ''php-apache'')
            (Some ''7'') None (JStr ''held'')) fresh_world) = Inl NotFoundException
   \<and> content (model (fst (snd (K8sHorizontalPodAutoscaler_get build_model
         (mock_send (http 404 []))
         (resource K8sHorizontalPodAutoscaler ''HorizontalPodAutoscaler'' (Some ''php-apache'')
            (Some ''7'') None (JStr ''held'')) fresh_world)))) = JStr ''held''"
proof -
  have h1: "K8sObject_name (resource K8sHorizontalPodAutoscaler ''HorizontalPodAutoscaler''
              (Some ''php-apache'') (Some ''7'') None (JStr ''held'')) \<noteq> None"
    by (simp add: K8sObject_name_def resource_def)
  have h2: "\<forall>r. fst (mock_send (http 404 []) r (server fresh_world)) = Sent (http 404 [])"
    by (simp add: mock_send_def)
  have h3: "\<not> st_success (http 404 [])"
    by (simp add: http_def)
  from get_not_found_keeps_model
    [where self = "resource K8sHorizontalPodAutoscaler ''HorizontalPodAutoscaler''
              (Some ''php-apache'') (Some ''7'') None (JStr ''held'')"
       and send = "mock_send (http 404 [])" and w = fresh_world and st = "http 404 []"
       and mk = build_model, OF h1 h2 h3]
  show ?thesis by (simp add: resource_def)
qed

text \<open>
  C5. Every \<open>create()\<close> on a named instance hands the transport exactly one request, an
  HTTP POST to the collection URL whose payload is the serialization of the model with
  the resource version cleared; this holds whatever the resource version was before, a
  non-null one in particular.
\<close>

theorem create_sends_payload_without_resource_version:
  assumes "K8sObject_name self \<noteq> None"
  shows "\<exists>r. sent (snd (snd (K8sObject_create send ser self w))) = sent w @ [r]
           \<and> rq_method r = ''POST'' \<and> rq_url r = base_url self
           \<and> rq_data r = Some (ser ((model self)\<lparr>metadata :=
                  (metadata (model self))\<lparr>resource_version := None\<rparr>\<rparr>))"
proof -
  from assms(1) obtain n where n: "K8sObject_name self = Some n" by auto
  show ?thesis
    by (simp add: create_named [OF n] Let_def request_sent)
qed

theorem create_sends_payload_without_resource_version_witness:
  "\<exists>r. sent (snd (snd (K8sObject_create (mock_send (http 201 [])) serialize_meta
              (resource K8sObject ''Pod'' (Some ''web'') (Some ''12'') (Some ''u-1'') JNone)
              fresh_world))) = [r]
     \<and> rq_method r = ''POST''
     \<and> rq_url r = ''/api/v1/namespaces/default/Pod''
     \<and> rq_data r = Some (JDict [(''metadata'',
                           JDict [(''name'', JStr ''web''), (''resourceVersion'', JNone),
                                  (''uid'', JStr ''u-1'')]),
                          (''content'', JNone)])"
proof -
  have h: "K8sObject_name
             (resource K8sObject ''Pod'' (Some ''web'') (Some ''12'') (Some ''u-1'') JNone)
           \<noteq> None"
    by (simp add: K8sObject_name_def resource_def)
  from create_sends_payload_without_resource_version
    [OF h, of "mock_send (http 201 [])" serialize_meta fresh_world]
  show ?thesis
    by (simp add: resource_def serialize_meta_def opt_str_def fresh_world_def)
qed

text \<open>
  C6. Every \<open>update()\<close> on a named instance hands the transport exactly one request, an
  HTTP PUT to the URL of the named resource whose payload is the serialization of the
  model with the UID cleared; this holds whatever the UID was before, a non-null one in
  particular.
\<close>

theorem update_sends_payload_without_uid:
  assumes "K8sObject_name self = Some n"
  shows "\<exists>r. sent (snd (snd (K8sObject_update send ser self w))) = sent w @ [r]
           \<and> rq_method r = ''PUT'' \<and> rq_url r = base_url self @ ''/'' @ n
           \<and> rq_data r = Some (ser ((model self)\<lparr>metadata :=
                  (metadata (model self))\<lparr>uid := None\<rparr>\<rparr>))"
  by (simp add: update_named [OF assms] Let_def request_sent)

theorem update_sends_payload_without_uid_witness:
  "\<exists>r. sent (snd (snd (K8sObject_update (mock_send (http 200 [])) serialize_meta
              (resource K8sObject ''Pod'' (Some ''web'') (Some ''12'') (Some ''u-1'') JNone)
              fresh_world))) = [r]
     \<and> rq_method r = ''PUT''
     \<and> rq_url r = ''/api/v1/namespaces/default/Pod/web''
     \<and> rq_data r = Some (JDict [(''metadata'',
                           JDict [(''name'', JStr ''web''), (''resourceVersion'', JStr ''12''),
                                  (''uid'', JNone)]),
                          (''content'', JNone)])"
proof -
  have h: "K8sObject_name
             (resource K8sObject ''Pod'' (Some ''web'') (Some ''12'') (Some ''u-1'') JNone)
           = Some ''web''"
    by (simp add: K8sObject_name_def resource_def)
  from update_sends_payload_without_uid
    [OF h, of "mock_send (http 200 [])" serialize_meta fresh_world]
  show ?thesis
    by (simp add: resource_def serialize_meta_def opt_str_def fresh_world_def)
qed

text \<open>
  C7. A \<open>create()\<close> on a named instance that is answered with a non-success response
  fails as already-exists on status 409, as unprocessable-entity on 422, as unauthorized
  on 401, and as generic bad-request on every other status.
\<close>

theorem create_failure_classified:
  assumes "K8sObject_name self \<noteq> None"
    and "\<forall>r. fst (send r (server w)) = Sent st"
    and "\<not> st_success st"
  shows "(st_status st = 409 \<longrightarrow>
            fst (K8sObject_create send ser self w) = Inl AlreadyExistsException)
       \<and> (st_status st = 422 \<longrightarrow>
            fst (K8sObject_create send ser self w) = Inl UnprocessableEntityException)
       \<and> (st_status st = 401 \<longrightarrow>
            fst (K8sObject_create send ser self w) = Inl UnauthorizedException)
       \<and> (st_status st \<noteq> 409 \<and> st_status st \<noteq> 422 \<and> st_status st \<noteq> 401 \<longrightarrow>
            fst (K8sObject_create send ser self w) = Inl BadRequestException)"
proof -
  from assms(1) obtain n where n: "K8sObject_name self = Some n" by auto
  show ?thesis
    using assms(2,3) by (simp add: create_named [OF n] Let_def request_answered)
qed

theorem create_failure_classified_witness:
  "fst (K8sObject_create (mock_send (http 409 [])) serialize_meta
          (resource K8sObject ''Pod'' (Some ''web'') None None JNone) fresh_world)
     = Inl AlreadyExistsException
   \<and> fst (K8sObject_create (mock_send (http 422 [])) serialize_meta
          (resource K8sObject ''Pod'' (Some ''web'') None None JNone) fresh_world)
     = Inl UnprocessableEntityException
   \<and> fst (K8sObject_create (mock_send (http 401 [])) serialize_meta
          (resource K8sObject ''Pod'' (Some ''web'') None None JNone) fresh_world)
     = Inl UnauthorizedException
   \<and> fst (K8sObject_create (mock_send (http 500 [])) serialize_meta
          (resource K8sObject ''Pod'' (Some ''web'') None None JNone) fresh_world)
     = Inl BadRequestException"
proof -
  have h1: "K8sObject_name (resource K8sObject ''Pod'' (Some ''web'') None None JNone) \<noteq> None"
    by (simp add: K8sObject_name_def resource_def)
  have h2: "\<forall>r. fst (mock_send (http c []) r (server fresh_world)) = Sent (http c [])" for c
    by (simp add: mock_send_def)
  have a: "fst (K8sObject_create (mock_send (http 409 [])) serialize_meta
          (resource K8sObject ''Pod'' (Some ''web'') None None JNone) fresh_world)
     = Inl AlreadyExistsException"
    using create_failure_classified
      [where self = "resource K8sObject ''Pod'' (Some ''web'') None None JNone"
         and send = "mock_send (http 409 [])" and w = fresh_world and st = "http 409 []"
         and ser = serialize_meta, OF h1 h2]
    by (simp add: http_def)
  have b: "fst (K8sObject_create (mock_send (http 422 [])) serialize_meta
          (resource K8sObject ''Pod'' (Some ''web'') None None JNone) fresh_world)
     = Inl UnprocessableEntityException"
    using create_failure_classified
      [where self = "resource K8sObject ''Pod'' (Some ''web'') None None JNone"
         and send = "mock_send (http 422 [])" and w = fresh_world and st = "http 422 []"
         and ser = serialize_meta, OF h1 h2]
    by (simp add: http_def)
  have c: "fst (K8sObject_create (mock_send (http 401 [])) serialize_meta
          (resource K8sObject ''Pod'' (Some ''web'') None None JNone) fresh_world)
     = Inl UnauthorizedException"
    using create_failure_classified
      [where self = "resource K8sObject ''Pod'' (Some ''web'') None None JNone"
         and send = "mock_send (http 401 [])" and w = fresh_world and st = "http 401 []"
         and ser = serialize_meta, OF h1 h2]
    by (simp add: http_def)
  have d: "fst (K8sObject_create (mock_send (http 500 [])) serialize_meta
          (resource K8sObject ''Pod'' (Some ''web'') None None JNone) fresh_world)
     = Inl BadRequestException"
    using create_failure_classified
      [where self = "resource K8sObject ''Pod'' (Some ''web'') None None JNone"
         and send = "mock_send (http 500 [])" and w = fresh_world and st = "http 500 []"
         and ser = serialize_meta, OF h1 h2]
    by (simp add: http_def)
  from a b c d show ?thesis by blast
qed

text \<open>
  C8. \<open>list(pattern)\<close> is claimed to return the server's items whose name contains the
  pattern, in server order, and all of them without a pattern. The code wraps each item
  through the class's own constructor, which rejects the kind, so any item that should be
  returned makes the call raise \<open>SyntaxError\<close>: here the server answers 200 with the one
  item \<open>php-apache\<close> and no pattern is given.
\<close>

theorem list_raises_on_item:
  "fst (K8sHorizontalPodAutoscaler_list dc s2c gbu build_model
          (mock_send (http 200
             [(''items'',
               JList [JDict [(''metadata'', JDict [(''name'', JStr ''php-apache'')])]])]))
          (resource K8sHorizontalPodAutoscaler ''HorizontalPodAutoscaler''
             (Some ''php-apache'') None None JNone)
          None fresh_world)
     = Inl SyntaxError"
proof -
  have "\<exists>w'. K8sObject_list
          (mock_send (http 200
             [(''items'',
               JList [JDict [(''metadata'', JDict [(''name'', JStr ''php-apache'')])]])]))
          (resource K8sHorizontalPodAutoscaler ''HorizontalPodAutoscaler''
             (Some ''php-apache'') None None JNone)
          fresh_world
     = (Inr (JList [JDict [(''metadata'', JDict [(''name'', JStr ''php-apache'')])]]), w')"
    by (simp add: list_result Let_def request_fst mock_send_def http_def)
  then obtain w' where l: "K8sObject_list
          (mock_send (http 200
             [(''items'',
               JList [JDict [(''metadata'', JDict [(''name'', JStr ''php-apache'')])]])]))
          (resource K8sHorizontalPodAutoscaler ''HorizontalPodAutoscaler''
             (Some ''php-apache'') None None JNone)
          fresh_world
     = (Inr (JList [JDict [(''metadata'', JDict [(''name'', JStr ''php-apache'')])]]), w')" ..
  show ?thesis
    unfolding K8sHorizontalPodAutoscaler_list_def l
    by (simp add: build_model_def str_at_def K8sHorizontalPodAutoscaler_init_def
        obj_type_rejected)
qed

text \<open>
  C9. Two resource objects compare equal exactly when the class of one is the class of
  the other or derives from it (two objects of the same class in particular), their
  namespaces match and their names match; nothing else of the held document is read.
  Objects of two unrelated resource classes never compare equal.
\<close>

theorem eq_characterised:
  "py_eq a b =
     ((issubclass (cls a) (cls b) \<or> issubclass (cls b) (cls a))
      \<and> namespace (config a) = namespace (config b)
      \<and> K8sObject_name a = K8sObject_name b)"
  by (auto simp: py_eq_def K8sObject_eq_def)

theorem eq_characterised_witness:
  "py_eq (resource K8sObject ''Pod'' (Some ''web'') (Some ''3'') None (JInt 1))
         (resource K8sObject ''Pod'' (Some ''web'') None (Some ''u-1'') (JInt 2))"
  using eq_characterised
    [of "resource K8sObject ''Pod'' (Some ''web'') (Some ''3'') None (JInt 1)"
        "resource K8sObject ''Pod'' (Some ''web'') None (Some ''u-1'') (JInt 2)"]
  by (simp add: resource_def K8sObject_name_def)

text \<open>
  An autoscaler and a stateful set with the same namespace and the same name are not
  equal: each \<open>__eq__\<close> returns \<open>NotImplemented\<close> for the other.
\<close>

theorem eq_unrelated_classes_counterexample:
  "namespace (config (resource K8sHorizontalPodAutoscaler ''HorizontalPodAutoscaler''
                        (Some ''web'') None None JNone))
     = namespace (config (resource K8sStatefulSet ''StatefulSet'' (Some ''web'') None None JNone))
   \<and> K8sObject_name (resource K8sHorizontalPodAutoscaler ''HorizontalPodAutoscaler''
                        (Some ''web'') None None JNone)
     = K8sObject_name (resource K8sStatefulSet ''StatefulSet'' (Some ''web'') None None JNone)
   \<and> \<not> py_eq (resource K8sHorizontalPodAutoscaler ''HorizontalPodAutoscaler''
                 (Some ''web'') None None JNone)
              (resource K8sStatefulSet ''StatefulSet'' (Some ''web'') None None JNone)"
  by (simp add: py_eq_def K8sObject_eq_def K8sObject_name_def resource_def)

text \<open>
  C10. A \<open>create()\<close> on a named instance that is answered with a non-success response
  raises, and the instance it leaves behind is the one before the call with the
  resource version of its model set to \<open>None\<close> and nothing else changed: the clearing
  done before the request is not undone.
\<close>

theorem create_failure_keeps_cleared_resource_version:
  assumes "K8sObject_name self \<noteq> None"
    and "\<forall>r. fst (send r (server w)) = Sent st"
    and "\<not> st_success st"
  shows "isl (fst (K8sObject_create send ser self w))
       \<and> fst (snd (K8sObject_create send ser self w)) =
           self\<lparr>model := (model self)\<lparr>metadata :=
                  (metadata (model self))\<lparr>resource_version := None\<rparr>\<rparr>\<rparr>"
proof -
  from assms(1) obtain n where n: "K8sObject_name self = Some n" by auto
  show ?thesis
    using assms(2,3) by (simp add: create_named [OF n] Let_def request_answered)
qed

theorem create_failure_keeps_cleared_resource_version_witness:
  "isl (fst (K8sObject_create (mock_send (http 409 [])) serialize_meta
          (resource K8sObject ''Pod'' (Some ''web'') (Some ''12'') (Some ''u-1'') (JInt 5))
          fresh_world))
   \<and> fst (snd (K8sObject_create (mock_send (http 409 [])) serialize_meta
          (resource K8sObject ''Pod'' (Some ''web'') (Some ''12'') (Some ''u-1'') (JInt 5))
          fresh_world))
     = resource K8sObject ''Pod'' (Some ''web'') None (Some ''u-1'') (JInt 5)"
proof -
  have h1: "K8sObject_name
              (resource K8sObject ''Pod'' (Some ''web'') (Some ''12'') (Some ''u-1'') (JInt 5))
            \<noteq> None"
    by (simp add: K8sObject_name_def resource_def)
  have h2: "\<forall>r. fst (mock_send (http 409 []) r (server fresh_world)) = Sent (http 409 [])"
    by (simp add: mock_send_def)
  have h3: "\<not> st_success (http 409 [])"
    by (simp add: http_def)
  from create_failure_keeps_cleared_resource_version
    [where self = "resource K8sObject ''Pod'' (Some ''web'') (Some ''12'') (Some ''u-1'')
                     (JInt 5)"
       and send = "mock_send (http 409 [])" and w = fresh_world and st = "http 409 []"
       and ser = serialize_meta, OF h1 h2 h3]
  show ?thesis by (simp add: resource_def)
qed

end
